theory Spec2Isabelle
  imports Main "HOL-Library.Signed_Division"
begin

section \<open>Calls that may throw\<close>

text \<open>
  A JavaScript call either returns a value or throws. For an \<open>async\<close> method the two cases
  are the promise being fulfilled and being rejected.
\<close>

datatype 'a completion = Returned 'a | Threw

section \<open>The radio player (src/music.ts)\<close>

record LofiStation =
  name :: string
  url :: string

definition LOFI_STATIONS :: "LofiStation list" where
  "LOFI_STATIONS =
    [\<lparr>name = ''Lofi Girl'', url = ''https://play.streamafrica.net/lofiradio''\<rparr>,
     \<lparr>name = ''ChillHop'', url = ''https://streams.fluxfm.de/Chillhop/mp3-128/streams.fluxfm.de/''\<rparr>,
     \<lparr>name = ''Box Lofi'', url = ''https://stream.zeno.fm/f3wvbbqmdg8uv''\<rparr>,
     \<lparr>name = ''Lofi Cafe'', url = ''https://stream.zeno.fm/0r0xa792kwzuv''\<rparr>,
     \<lparr>name = ''Study Beats'', url = ''https://stream.zeno.fm/yn65fsaurfhvv''\<rparr>]"

text \<open>
  An external process as the operating system sees it: a handle number and the command
  line it was started with.
\<close>

record Subprocess =
  pid :: nat
  argv :: "string list"

text \<open>
  The four fields of class \<open>RadioPlayer\<close>. Station indices are JavaScript numbers; the
  model takes them as integers.
\<close>

record RadioPlayer =
  process :: "Subprocess option"
  currentStationIndex :: int
  isPlaying :: bool
  playerCommand :: "string option"

text \<open>
  The player together with the part of the operating system it acts on: \<open>live\<close> lists the
  processes started by \<open>Bun.spawn\<close> that have not been killed, \<open>spawnCount\<close> numbers the
  handles, and \<open>peakLive\<close> records the largest number of processes that were ever alive
  at the same moment (it is written at every spawn and nowhere else).
\<close>

record RadioWorld = RadioPlayer +
  live :: "Subprocess list"
  spawnCount :: nat
  peakLive :: nat

text \<open>What the environment does with a \<open>Bun.spawn\<close> and with a \<open>kill()\<close>.\<close>

datatype SpawnOutcome = SpawnOk | SpawnThrows

datatype KillOutcome = KillOk | KillThrows

text \<open>
  The constructor: \<open>detectPlayer\<close> probes \<open>mpv\<close>, \<open>ffplay\<close>, \<open>cvlc\<close>, \<open>mplayer\<close>
  with \<open>which\<close> and keeps the first that is found. \<open>found p\<close> says whether
  \<open>which p\<close> exits with code 0 (a probe that throws counts as not found).
\<close>

fun detectPlayer :: "(string \<Rightarrow> bool) \<Rightarrow> string list \<Rightarrow> string option" where
  "detectPlayer found [] = None"
| "detectPlayer found (player # players) =
     (if found player then Some player else detectPlayer found players)"

definition RadioPlayer_new :: "string option \<Rightarrow> RadioWorld" where
  "RadioPlayer_new cmd =
     \<lparr>process = None, currentStationIndex = 0, isPlaying = False, playerCommand = cmd,
      live = [], spawnCount = 0, peakLive = 0\<rparr>"

definition RadioPlayer_constructor :: "(string \<Rightarrow> bool) \<Rightarrow> RadioWorld" where
  "RadioPlayer_constructor found =
     RadioPlayer_new (detectPlayer found [''mpv'', ''ffplay'', ''cvlc'', ''mplayer''])"

text \<open>\<open>LOFI_STATIONS[i]\<close>: \<open>undefined\<close> (here \<open>None\<close>) outside the catalog.\<close>

definition station_at :: "int \<Rightarrow> LofiStation option" where
  "station_at i =
     (if 0 \<le> i \<and> i < int (length LOFI_STATIONS) then Some (LOFI_STATIONS ! nat i) else None)"

definition getPlayerArgs :: "string \<Rightarrow> string \<Rightarrow> string list" where
  "getPlayerArgs cmd u =
     (if cmd = ''mpv'' then [''--no-video'', ''--really-quiet'', u]
      else if cmd = ''ffplay'' then [''-nodisp'', ''-autoexit'', ''-loglevel'', ''quiet'', u]
      else if cmd = ''cvlc'' then [''--intf'', ''dummy'', ''--quiet'', u]
      else if cmd = ''mplayer'' then [''-really-quiet'', ''-noconsolecontrols'', u]
      else [u])"

text \<open>
  \<open>play()\<close>. \<open>!this.playerCommand\<close> holds for \<open>null\<close> and for the empty string. Reading
  \<open>station.url\<close> of a missing station and \<open>Bun.spawn\<close> both sit inside the \<open>try\<close>, so
  either failure ends in \<open>return false\<close>. The promise is always fulfilled.
\<close>

definition RadioPlayer_play :: "SpawnOutcome \<Rightarrow> RadioWorld \<Rightarrow> bool \<times> RadioWorld" where
  "RadioPlayer_play sp w =
     (case playerCommand w of
        None \<Rightarrow> (False, w)
      | Some cmd \<Rightarrow>
          if cmd = [] then (False, w)
          else if isPlaying w then (True, w)
          else
            (case station_at (currentStationIndex w) of
               None \<Rightarrow> (False, w)
             | Some station \<Rightarrow>
                 (case sp of
                    SpawnThrows \<Rightarrow> (False, w)
                  | SpawnOk \<Rightarrow>
                      let p = \<lparr>pid = spawnCount w, argv = cmd # getPlayerArgs cmd (url station)\<rparr>
                      in (True,
                          w\<lparr>process := Some p, isPlaying := True,
                            live := p # live w, spawnCount := Suc (spawnCount w),
                            peakLive := max (peakLive w) (Suc (length (live w)))\<rparr>))))"

text \<open>
  \<open>stop()\<close> has no \<open>try\<close>: when \<open>kill()\<close> throws, the exception leaves \<open>stop\<close> before
  either field is written.
\<close>

definition RadioPlayer_stop :: "KillOutcome \<Rightarrow> RadioWorld \<Rightarrow> unit completion \<times> RadioWorld" where
  "RadioPlayer_stop k w =
     (case process w of
        None \<Rightarrow> (Returned (), w\<lparr>isPlaying := False\<rparr>)
      | Some p \<Rightarrow>
          (case k of
             KillThrows \<Rightarrow> (Threw, w)
           | KillOk \<Rightarrow>
               (Returned (), w\<lparr>process := None, isPlaying := False, live := removeAll p (live w)\<rparr>)))"

definition RadioPlayer_pause :: "KillOutcome \<Rightarrow> RadioWorld \<Rightarrow> unit completion \<times> RadioWorld" where
  "RadioPlayer_pause k w = RadioPlayer_stop k w"

definition RadioPlayer_resume :: "SpawnOutcome \<Rightarrow> RadioWorld \<Rightarrow> bool \<times> RadioWorld" where
  "RadioPlayer_resume sp w = RadioPlayer_play sp w"

definition RadioPlayer_toggle ::
  "KillOutcome \<Rightarrow> SpawnOutcome \<Rightarrow> RadioWorld \<Rightarrow> bool completion \<times> RadioWorld" where
  "RadioPlayer_toggle k sp w =
     (if isPlaying w then
        (case RadioPlayer_stop k w of
           (Threw, w') \<Rightarrow> (Threw, w')
         | (Returned _, w') \<Rightarrow> (Returned False, w'))
      else (case RadioPlayer_play sp w of (b, w') \<Rightarrow> (Returned b, w')))"

text \<open>
  JavaScript's \<open>%\<close> takes the sign of the dividend: it is \<open>smod\<close>, not \<open>mod\<close>.
  The three station operations share one shape: remember \<open>isPlaying\<close>, stop, write the
  index, and play again if music was on (the result of that \<open>play()\<close> is dropped).
\<close>

definition switch_station ::
  "int \<Rightarrow> KillOutcome \<Rightarrow> SpawnOutcome \<Rightarrow> RadioWorld \<Rightarrow> unit completion \<times> RadioWorld" where
  "switch_station i k sp w =
     (let wasPlaying = isPlaying w in
      case RadioPlayer_stop k w of
        (Threw, w') \<Rightarrow> (Threw, w')
      | (Returned _, w') \<Rightarrow>
          let w'' = w'\<lparr>currentStationIndex := i\<rparr>
          in if wasPlaying then (Returned (), snd (RadioPlayer_play sp w'')) else (Returned (), w''))"

definition RadioPlayer_nextStation ::
  "KillOutcome \<Rightarrow> SpawnOutcome \<Rightarrow> RadioWorld \<Rightarrow> unit completion \<times> RadioWorld" where
  "RadioPlayer_nextStation k sp w =
     switch_station ((currentStationIndex w + 1) smod int (length LOFI_STATIONS)) k sp w"

definition RadioPlayer_previousStation ::
  "KillOutcome \<Rightarrow> SpawnOutcome \<Rightarrow> RadioWorld \<Rightarrow> unit completion \<times> RadioWorld" where
  "RadioPlayer_previousStation k sp w =
     switch_station
       ((currentStationIndex w - 1 + int (length LOFI_STATIONS)) smod int (length LOFI_STATIONS))
       k sp w"

definition RadioPlayer_setStation ::
  "int \<Rightarrow> KillOutcome \<Rightarrow> SpawnOutcome \<Rightarrow> RadioWorld \<Rightarrow> unit completion \<times> RadioWorld" where
  "RadioPlayer_setStation i k sp w =
     (if 0 \<le> i \<and> i < int (length LOFI_STATIONS) then switch_station i k sp w
      else (Returned (), w))"

text \<open>
  \<open>MusicManager.cleanup()\<close> calls \<open>this.radio.stop()\<close> first; its second statement only
  clears the Spotify poll timer, which is no part of the radio state.
\<close>

definition MusicManager_cleanup :: "KillOutcome \<Rightarrow> RadioWorld \<Rightarrow> unit completion \<times> RadioWorld" where
  "MusicManager_cleanup k w = RadioPlayer_stop k w"

text \<open>One call of the player's interface, with what the environment does during it.\<close>

datatype RadioOp =
    Play SpawnOutcome
  | Stop KillOutcome
  | Pause KillOutcome
  | Resume SpawnOutcome
  | Toggle KillOutcome SpawnOutcome
  | NextStation KillOutcome SpawnOutcome
  | PreviousStation KillOutcome SpawnOutcome
  | SetStation int KillOutcome SpawnOutcome
  | Cleanup KillOutcome

fun radio_step :: "RadioWorld \<Rightarrow> RadioOp \<Rightarrow> RadioWorld" where
  "radio_step w (Play sp) = snd (RadioPlayer_play sp w)"
| "radio_step w (Stop k) = snd (RadioPlayer_stop k w)"
| "radio_step w (Pause k) = snd (RadioPlayer_pause k w)"
| "radio_step w (Resume sp) = snd (RadioPlayer_resume sp w)"
| "radio_step w (Toggle k sp) = snd (RadioPlayer_toggle k sp w)"
| "radio_step w (NextStation k sp) = snd (RadioPlayer_nextStation k sp w)"
| "radio_step w (PreviousStation k sp) = snd (RadioPlayer_previousStation k sp w)"
| "radio_step w (SetStation i k sp) = snd (RadioPlayer_setStation i k sp w)"
| "radio_step w (Cleanup k) = snd (MusicManager_cleanup k w)"

definition radio_run :: "RadioOp list \<Rightarrow> RadioWorld \<Rightarrow> RadioWorld" where
  "radio_run ops w = foldl radio_step w ops"

text \<open>
  The state between two calls: the handle held by the player is exactly the list of live
  processes, \<open>isPlaying\<close> says whether there is one, and no two were ever alive together.
\<close>

definition radio_inv :: "RadioWorld \<Rightarrow> bool" where
  "radio_inv w \<longleftrightarrow>
     live w = (case process w of None \<Rightarrow> [] | Some p \<Rightarrow> [p]) \<and>
     isPlaying w = (process w \<noteq> None) \<and>
     peakLive w \<le> 1"

text \<open>
  \<open>nextStation()\<close> called once for each entry of a list of environment outcomes, as
  straight-line code: an exception ends the run.
\<close>

fun nextStation_times ::
  "(KillOutcome \<times> SpawnOutcome) list \<Rightarrow> RadioWorld \<Rightarrow> unit completion \<times> RadioWorld" where
  "nextStation_times [] w = (Returned (), w)"
| "nextStation_times ((k, sp) # es) w =
     (case RadioPlayer_nextStation k sp w of
        (Threw, w') \<Rightarrow> (Threw, w')
      | (Returned _, w') \<Rightarrow> nextStation_times es w')"

definition index_in_catalog :: "RadioWorld \<Rightarrow> bool" where
  "index_in_catalog w \<longleftrightarrow>
     0 \<le> currentStationIndex w \<and> currentStationIndex w < int (length LOFI_STATIONS)"

text \<open>A player built when no program was found never starts anything.\<close>

definition silent :: "RadioWorld \<Rightarrow> bool" where
  "silent w \<longleftrightarrow>
     playerCommand w = None \<and> \<not> isPlaying w \<and> process w = None \<and> live w = [] \<and> spawnCount w = 0"

section \<open>The Spotify now-playing display (src/music.ts)\<close>

text \<open>
  Interface \<open>SpotifyTrack\<close>. Record fields share one name space in Isabelle, so the
  fields \<open>name\<close>, \<open>artist\<close>, \<open>album\<close>, \<open>isPlaying\<close> carry the prefix \<open>track_\<close>.
  The track is filled from decoded JSON without any check, so a field the answer lacks
  is \<open>undefined\<close> at run time: \<open>None\<close> here. \<open>artist\<close> is the result of a \<open>join\<close> and
  therefore always a string.
\<close>

record SpotifyTrack =
  track_name :: "string option"
  track_artist :: string
  track_album :: "string option"
  track_isPlaying :: "bool option"

record SpotifyDisplay =
  accessToken :: "string option"
  currentTrack :: "SpotifyTrack option"
  pollInterval :: "nat option"

text \<open>
  The decoded body \<open>data\<close> of the answer, as far as \<open>getCurrentTrack\<close> reads it.
  An entry of \<open>item.artists\<close> is \<open>null\<close> or an object whose \<open>name\<close> may be missing;
  \<open>artists\<close> itself may be missing (\<open>None\<close>); \<open>album\<close> is missing (\<open>None\<close>) or an object
  whose \<open>name\<close> may be missing; \<open>item\<close> and \<open>is_playing\<close> may be missing.
\<close>

datatype ArtistEntry = ArtistNull | ArtistObject "string option"

record SpotifyItem =
  item_name :: "string option"
  artists :: "ArtistEntry list option"
  album :: "string option option"

record SpotifyData =
  item :: "SpotifyItem option"
  is_playing :: "bool option"

text \<open>
  What \<open>getCurrentTrack\<close> gets from the network. The request is \<open>fetch(url, { headers })\<close>
  on the Bun runtime, whose \<open>fetch\<close> ends a request that is not answered in time by
  rejecting it with a timeout error: the request always settles, as a timeout, as another
  rejection (no network, connection reset) or as a response. Reading the body with
  \<open>response.json()\<close> is timed out or rejected (no valid JSON) in the same way, or yields
  \<open>data\<close>, which may be \<open>null\<close> (\<open>None\<close>).
\<close>

datatype BodyOutcome = BodyTimeout | BodyRejects | Body "SpotifyData option"

record HttpResponse =
  status :: int
  body :: BodyOutcome

datatype FetchOutcome = FetchTimeout | FetchRejects | FetchResponse HttpResponse

definition response_ok :: "HttpResponse \<Rightarrow> bool" where
  "response_ok r \<longleftrightarrow> 200 \<le> status r \<and> status r \<le> 299"

text \<open>
  \<open>artists.map(a => a.name)\<close>: reading \<open>name\<close> of a \<open>null\<close> entry throws (\<open>None\<close>);
  a missing name is \<open>undefined\<close>.
\<close>

fun artist_names :: "ArtistEntry list \<Rightarrow> string option list option" where
  "artist_names [] = Some []"
| "artist_names (ArtistNull # rest) = None"
| "artist_names (ArtistObject n # rest) = map_option (Cons n) (artist_names rest)"

text \<open>\<open>join(', ')\<close>: an \<open>undefined\<close> element is joined as the empty string.\<close>

fun join_text :: "string option \<Rightarrow> string" where
  "join_text None = []"
| "join_text (Some s) = s"

fun join_comma :: "string option list \<Rightarrow> string" where
  "join_comma [] = []"
| "join_comma [a] = join_text a"
| "join_comma (a # b # rest) = join_text a @ '', '' @ join_comma (b # rest)"

text \<open>
  The object literal assigned to \<open>this.currentTrack\<close>. \<open>None\<close> means that building it
  throws: \<open>artists\<close> is missing or has a \<open>null\<close> entry, or \<open>album\<close> is missing. Missing
  names do not throw.
\<close>

definition read_track :: "SpotifyData \<Rightarrow> SpotifyItem \<Rightarrow> SpotifyTrack option" where
  "read_track data i =
     (case artists i of
        None \<Rightarrow> None
      | Some entries \<Rightarrow>
          (case artist_names entries of
             None \<Rightarrow> None
           | Some names \<Rightarrow>
               (case album i of
                  None \<Rightarrow> None
                | Some albumName \<Rightarrow>
                    Some \<lparr>track_name = item_name i, track_artist = join_comma names,
                          track_album = albumName, track_isPlaying = is_playing data\<rparr>)))"

text \<open>
  \<open>getCurrentTrack()\<close>: the track or \<open>null\<close> (\<open>None\<close>) the promise is fulfilled with, and
  the display after the call. Every exception, the timeout included, is caught by the
  \<open>try\<close> and ends in \<open>return null\<close>; \<open>this.currentTrack\<close> is written in one place only.
\<close>

definition SpotifyDisplay_getCurrentTrack ::
  "FetchOutcome \<Rightarrow> SpotifyDisplay \<Rightarrow> SpotifyTrack option \<times> SpotifyDisplay" where
  "SpotifyDisplay_getCurrentTrack fo d =
     (if accessToken d = None \<or> accessToken d = Some [] then (None, d)
      else
        (case fo of
           FetchTimeout \<Rightarrow> (None, d)
         | FetchRejects \<Rightarrow> (None, d)
         | FetchResponse response \<Rightarrow>
             if status response = 204 \<or> status response = 401 then (None, d)
             else if \<not> response_ok response then (None, d)
             else
               (case body response of
                  BodyTimeout \<Rightarrow> (None, d)
                | BodyRejects \<Rightarrow> (None, d)
                | Body None \<Rightarrow> (None, d)
                | Body (Some data) \<Rightarrow>
                    (case item data of
                       None \<Rightarrow> (None, d)
                     | Some i \<Rightarrow>
                         (case read_track data i of
                            None \<Rightarrow> (None, d)
                          | Some track \<Rightarrow> (Some track, d\<lparr>currentTrack := Some track\<rparr>))))))"

text \<open>
  One round of the poll started by \<open>startPolling\<close>: \<open>getCurrentTrack\<close> is awaited and the
  callback is called with its result. The second component is the callback's argument.
\<close>

definition SpotifyDisplay_poll ::
  "FetchOutcome \<Rightarrow> SpotifyDisplay \<Rightarrow> SpotifyDisplay \<times> SpotifyTrack option" where
  "SpotifyDisplay_poll fo d =
     (case SpotifyDisplay_getCurrentTrack fo d of (track, d') \<Rightarrow> (d', track))"

definition SpotifyDisplay_getCachedTrack :: "SpotifyDisplay \<Rightarrow> SpotifyTrack option" where
  "SpotifyDisplay_getCachedTrack d = currentTrack d"

text \<open>
  The failures of a poll: a timeout, any other rejection of the request, the status 204
  or 401, a status that is not OK, a body that cannot be read, a payload without data or
  without item, and an exception while the track is built from the payload.
\<close>

fun body_fails :: "BodyOutcome \<Rightarrow> bool" where
  "body_fails BodyTimeout = True"
| "body_fails BodyRejects = True"
| "body_fails (Body None) = True"
| "body_fails (Body (Some data)) =
     (case item data of None \<Rightarrow> True | Some i \<Rightarrow> read_track data i = None)"

fun poll_fails :: "FetchOutcome \<Rightarrow> bool" where
  "poll_fails FetchTimeout = True"
| "poll_fails FetchRejects = True"
| "poll_fails (FetchResponse r) =
     (status r = 204 \<or> status r = 401 \<or> \<not> response_ok r \<or> body_fails (body r))"

text \<open>An example: a display with a token and a cached track, and an answer with a new track.\<close>

definition cached_display :: SpotifyDisplay where
  "cached_display =
     \<lparr>accessToken = Some ''token'',
      currentTrack = Some \<lparr>track_name = Some ''Snowman'', track_artist = ''WYS'',
                           track_album = Some ''Snowman'', track_isPlaying = Some True\<rparr>,
      pollInterval = Some 1\<rparr>"

definition answer_without_names :: FetchOutcome where
  "answer_without_names =
     FetchResponse
       \<lparr>status = 200,
        body = Body (Some \<lparr>item = Some \<lparr>item_name = Some ''Affection'',
                                          artists = Some [ArtistObject (Some ''Jinsang''), ArtistObject None],
                                          album = Some None\<rparr>,
                            is_playing = Some False\<rparr>)\<rparr>"

section \<open>Session types and configuration (types.ts)\<close>

text \<open>\<open>type SessionType = 'work' | 'shortBreak' | 'longBreak'\<close>\<close>

datatype SessionType = Work | ShortBreak | LongBreak

record PomodoroConfig =
  workDuration :: nat
  shortBreakDuration :: nat
  longBreakDuration :: nat
  pomodorosBeforeLongBreak :: nat

record PomodoroState =
  currentSession :: SessionType
  timeRemaining :: nat
  isRunning :: bool
  completedPomodoros :: nat

definition DEFAULT_CONFIG :: PomodoroConfig where
  "DEFAULT_CONFIG =
     \<lparr>workDuration = 25, shortBreakDuration = 5, longBreakDuration = 15,
      pomodorosBeforeLongBreak = 4\<rparr>"

section \<open>The history manager (history.ts)\<close>

text \<open>
  Modelled from the spec: the declarations of \<open>PomodoroHistoryEntry\<close> and
  \<open>PomodoroHistory\<close>, which \<open>history.ts\<close> imports from \<open>./types\<close> and which the source
  at hand does not contain. The fields are those the spec lists for the persisted document
  and those \<open>addEntry\<close> writes. The field \<open>id\<close> is called \<open>entry_id\<close> here.
\<close>

record PomodoroHistoryEntry =
  entry_id :: string
  sessionType :: SessionType
  duration :: int
  completedAt :: string
  date :: string
  pomodoroNumber :: int

record PomodoroHistory =
  entries :: "PomodoroHistoryEntry list"
  totalPomodoros :: int
  lastUpdated :: string

text \<open>
  A \<open>Date\<close> is modelled by its \<open>toISOString()\<close> text, such as
  \<open>2024-01-01T23:59:59.999Z\<close>. \<open>getDateString\<close> is \<open>date.toISOString().split('T')[0]\<close>.
\<close>

definition getDateString :: "string \<Rightarrow> string" where
  "getDateString isoString = takeWhile (\<lambda>c. c \<noteq> CHR ''T'') isoString"

text \<open>
  What \<open>addEntry\<close> takes from its environment, in the order it asks for it:
  \<open>now\<close> is the \<open>new Date()\<close> of its first line, \<open>generatedId\<close> the result of
  \<open>generateId()\<close>, \<open>today\<close> the second \<open>new Date()\<close>, read inside
  \<open>getPomodoroNumberForToday\<close>, and \<open>saved\<close> says whether \<open>save()\<close> returns or throws.
\<close>

datatype SaveOutcome = SaveOk | SaveThrows

record AddEntryEnv =
  now :: string
  generatedId :: string
  today :: string
  saved :: SaveOutcome

definition getPomodoroNumberForToday :: "string \<Rightarrow> PomodoroHistory \<Rightarrow> int" where
  "getPomodoroNumberForToday clock h =
     int (length (filter (\<lambda>e. date e = getDateString clock \<and> sessionType e = Work) (entries h))) + 1"

definition new_entry :: "AddEntryEnv \<Rightarrow> SessionType \<Rightarrow> int \<Rightarrow> PomodoroHistory \<Rightarrow> PomodoroHistoryEntry" where
  "new_entry env st d h =
     \<lparr>entry_id = generatedId env,
      sessionType = st,
      duration = d,
      completedAt = now env,
      date = getDateString (now env),
      pomodoroNumber = (if st = Work then getPomodoroNumberForToday (today env) h else 0)\<rparr>"

text \<open>
  \<open>addEntry\<close>: the history object is updated before \<open>save()\<close> is awaited, so it is
  updated whether or not the write succeeds; only the promise differs.
\<close>

definition HistoryManager_addEntry ::
  "AddEntryEnv \<Rightarrow> SessionType \<Rightarrow> int \<Rightarrow> PomodoroHistory
     \<Rightarrow> PomodoroHistoryEntry completion \<times> PomodoroHistory" where
  "HistoryManager_addEntry env st d h =
     (let entry = new_entry env st d h;
          h1 = h\<lparr>entries := entries h @ [entry]\<rparr>;
          h2 = (if st = Work then h1\<lparr>totalPomodoros := totalPomodoros h1 + 1\<rparr> else h1);
          h3 = h2\<lparr>lastUpdated := now env\<rparr>
      in (case saved env of SaveOk \<Rightarrow> (Returned entry, h3) | SaveThrows \<Rightarrow> (Threw, h3)))"

text \<open>
  The 1-based position of the last entry of a history among the work entries that carry
  the same \<open>date\<close>: the number of such entries, the last one included.
\<close>

definition work_ordinal_of_last :: "PomodoroHistory \<Rightarrow> int" where
  "work_ordinal_of_last h =
     int (length (filter (\<lambda>e. sessionType e = Work \<and> date e = date (last (entries h))) (entries h)))"

section \<open>The session engine (pomodoro.ts)\<close>

text \<open>
  Modelled from the spec: class \<open>Pomodoro\<close> of \<open>pomodoro.ts\<close>, which the source at hand
  does not contain (only its callers and the types of \<open>types.ts\<close> are there). Every
  definition of this section follows section 4.1 of the specification sentence by
  sentence. Besides the four observable fields the engine holds its cycle counter and its
  subscription to the one-second clock.
\<close>

record Pomodoro = PomodoroState +
  completedWorkSessionsInCycle :: nat
  tickSubscription :: bool

text \<open>Modelled from the spec: a valid configuration has all four fields above zero.\<close>

definition valid_config :: "PomodoroConfig \<Rightarrow> bool" where
  "valid_config cfg \<longleftrightarrow>
     0 < workDuration cfg \<and> 0 < shortBreakDuration cfg \<and> 0 < longBreakDuration cfg \<and>
     0 < pomodorosBeforeLongBreak cfg"

text \<open>Modelled from the spec: a session type's configured duration in seconds.\<close>

fun sessionSeconds :: "PomodoroConfig \<Rightarrow> SessionType \<Rightarrow> nat" where
  "sessionSeconds cfg Work = workDuration cfg * 60"
| "sessionSeconds cfg ShortBreak = shortBreakDuration cfg * 60"
| "sessionSeconds cfg LongBreak = longBreakDuration cfg * 60"

text \<open>
  Modelled from the spec: the initial state, \<open>currentSession = Work\<close>,
  \<open>timeRemaining = workDuration * 60\<close>, \<open>isRunning = false\<close>, \<open>completedPomodoros = 0\<close>.
\<close>

definition Pomodoro_new :: "PomodoroConfig \<Rightarrow> Pomodoro" where
  "Pomodoro_new cfg =
     \<lparr>currentSession = Work, timeRemaining = workDuration cfg * 60, isRunning = False,
      completedPomodoros = 0, completedWorkSessionsInCycle = 0, tickSubscription = False\<rparr>"

text \<open>Modelled from the spec: \<open>getState()\<close> returns a copy of the four observable fields.\<close>

definition getState :: "Pomodoro \<Rightarrow> PomodoroState" where
  "getState e =
     \<lparr>currentSession = currentSession e, timeRemaining = timeRemaining e,
      isRunning = isRunning e, completedPomodoros = completedPomodoros e\<rparr>"

text \<open>
  Modelled from the spec: the two notifications of the engine, state-changed with a
  snapshot and session-completed with the type of the session that ended. An emission
  pairs a notification with \<open>observed\<close>, the snapshot that \<open>getState()\<close> yields at the
  moment the notification is delivered, which is what a subscriber reading the engine in
  its callback sees.
\<close>

datatype Notification = StateChanged PomodoroState | SessionCompleted SessionType

record Emission =
  notification :: Notification
  observed :: PomodoroState

definition emit :: "Notification \<Rightarrow> Pomodoro \<Rightarrow> Emission" where
  "emit n e = \<lparr>notification = n, observed = getState e\<rparr>"

text \<open>
  Modelled from the spec: \<open>start()\<close>, a no-op when already running, otherwise sets
  \<open>isRunning\<close> and schedules the repeating tick.
\<close>

definition Pomodoro_start :: "Pomodoro \<Rightarrow> Pomodoro" where
  "Pomodoro_start e =
     (if isRunning e then e else e\<lparr>isRunning := True, tickSubscription := True\<rparr>)"

text \<open>
  Modelled from the spec: \<open>pause()\<close>, a no-op when not running, otherwise clears
  \<open>isRunning\<close> and cancels the tick subscription.
\<close>

definition Pomodoro_pause :: "Pomodoro \<Rightarrow> Pomodoro" where
  "Pomodoro_pause e =
     (if \<not> isRunning e then e else e\<lparr>isRunning := False, tickSubscription := False\<rparr>)"

text \<open>
  Modelled from the spec: \<open>reset()\<close> stops ticking, clears \<open>isRunning\<close> and restores the
  full duration of the current session type.
\<close>

definition Pomodoro_reset :: "PomodoroConfig \<Rightarrow> Pomodoro \<Rightarrow> Pomodoro" where
  "Pomodoro_reset cfg e =
     e\<lparr>timeRemaining := sessionSeconds cfg (currentSession e), isRunning := False,
       tickSubscription := False\<rparr>"

text \<open>
  Modelled from the spec: steps 2 and 3 of the transition. After a work session both
  counters go up by one and the cycle counter decides between the two breaks; after a
  break nothing is counted and work follows. The result is the engine with its counters
  updated and the next session type.
\<close>

definition count_session :: "PomodoroConfig \<Rightarrow> Pomodoro \<Rightarrow> Pomodoro \<times> SessionType" where
  "count_session cfg e =
     (case currentSession e of
        Work \<Rightarrow>
          let e1 = e\<lparr>completedPomodoros := completedPomodoros e + 1\<rparr>;
              e2 = e1\<lparr>completedWorkSessionsInCycle := completedWorkSessionsInCycle e1 + 1\<rparr>
          in if pomodorosBeforeLongBreak cfg \<le> completedWorkSessionsInCycle e2
             then (e2\<lparr>completedWorkSessionsInCycle := 0\<rparr>, LongBreak)
             else (e2, ShortBreak)
      | ShortBreak \<Rightarrow> (e, Work)
      | LongBreak \<Rightarrow> (e, Work))"

text \<open>
  Modelled from the spec: the transition. Its result is the engine after steps 2 to 4
  (counters, next session type, that type's full duration, stopped), and two
  notifications in the order the specification fixes: session-completed with the type of
  the session that ended, then state-changed with the new snapshot. The specification
  does not say what the engine shows while session-completed is delivered; the
  subscribers in the source do: \<open>onSessionComplete\<close> of the blessed UI calls
  \<open>getState()\<close> in the callback to take \<open>timeRemaining\<close> for the next session, and
  \<open>PomodoroTUI.onSessionComplete\<close> reads it as \<open>nextState\<close>. Both emissions therefore
  observe the engine with the next session in place.
\<close>

definition transition :: "PomodoroConfig \<Rightarrow> Pomodoro \<Rightarrow> Pomodoro \<times> Emission list" where
  "transition cfg e =
     (let ended = currentSession e;
          (e1, nextSession) = count_session cfg e;
          e2 = e1\<lparr>currentSession := nextSession,
                 timeRemaining := sessionSeconds cfg nextSession,
                 isRunning := False,
                 tickSubscription := False\<rparr>;
          completed = emit (SessionCompleted ended) e2;
          changed = emit (StateChanged (getState e2)) e2
      in (e2, [completed, changed]))"

text \<open>
  Modelled from the spec: \<open>skip()\<close> performs the transition of a natural completion
  without waiting for \<open>timeRemaining\<close> to reach zero.
\<close>

definition Pomodoro_skip :: "PomodoroConfig \<Rightarrow> Pomodoro \<Rightarrow> Pomodoro \<times> Emission list" where
  "Pomodoro_skip cfg e = transition cfg e"

text \<open>
  Modelled from the spec: the tick. \<open>timeRemaining\<close> goes down by one; a result above
  zero is reported by a state-changed notification, the result zero starts the
  transition. (\<open>timeRemaining\<close> is a natural number, as the specification has it:
  a tick at zero leaves it at zero.)
\<close>

definition Pomodoro_tick :: "PomodoroConfig \<Rightarrow> Pomodoro \<Rightarrow> Pomodoro \<times> Emission list" where
  "Pomodoro_tick cfg e =
     (let e1 = e\<lparr>timeRemaining := timeRemaining e - 1\<rparr>
      in if 0 < timeRemaining e1 then (e1, [emit (StateChanged (getState e1)) e1])
         else transition cfg e1)"

text \<open>
  Modelled from the spec: the clock source, a repeating one-second timer. In one second of
  real time it calls the tick if the engine holds a subscription and does nothing
  otherwise. \<open>elapse\<close> lets a number of seconds pass.
\<close>

definition clock_second :: "PomodoroConfig \<Rightarrow> Pomodoro \<Rightarrow> Pomodoro \<times> Emission list" where
  "clock_second cfg e = (if tickSubscription e then Pomodoro_tick cfg e else (e, []))"

fun elapse :: "PomodoroConfig \<Rightarrow> nat \<Rightarrow> Pomodoro \<Rightarrow> Pomodoro \<times> Emission list" where
  "elapse cfg 0 e = (e, [])"
| "elapse cfg (Suc n) e =
     (case clock_second cfg e of
        (e1, out1) \<Rightarrow> (case elapse cfg n e1 of (e2, out2) \<Rightarrow> (e2, out1 @ out2)))"

text \<open>
  Everything that can happen to an engine: the four commands and the passing of a second.
  The reachable states are those \<open>engine_run\<close> yields from the initial state.
\<close>

datatype EngineEvent = Start | PauseTimer | Reset | Skip | Second

fun engine_step :: "PomodoroConfig \<Rightarrow> Pomodoro \<Rightarrow> EngineEvent \<Rightarrow> Pomodoro" where
  "engine_step cfg e Start = Pomodoro_start e"
| "engine_step cfg e PauseTimer = Pomodoro_pause e"
| "engine_step cfg e Reset = Pomodoro_reset cfg e"
| "engine_step cfg e Skip = fst (Pomodoro_skip cfg e)"
| "engine_step cfg e Second = fst (clock_second cfg e)"

definition engine_run :: "PomodoroConfig \<Rightarrow> EngineEvent list \<Rightarrow> Pomodoro" where
  "engine_run cfg evs = foldl (engine_step cfg) (Pomodoro_new cfg) evs"

text \<open>
  The two ways a session ends: the user starts the timer and lets its whole remaining
  time pass, or the user skips.
\<close>

datatype Ending = ByTicks | BySkip

fun complete_session :: "PomodoroConfig \<Rightarrow> Pomodoro \<Rightarrow> Ending \<Rightarrow> Pomodoro" where
  "complete_session cfg e ByTicks = fst (elapse cfg (timeRemaining e) (Pomodoro_start e))"
| "complete_session cfg e BySkip = fst (Pomodoro_skip cfg e)"

definition complete_sessions :: "PomodoroConfig \<Rightarrow> Ending list \<Rightarrow> Pomodoro" where
  "complete_sessions cfg ends = foldl (complete_session cfg) (Pomodoro_new cfg) ends"

text \<open>
  What the specification says of the engine \<open>e'\<close> that results when a work session of
  the engine \<open>e\<close> has ended.
\<close>

definition after_work :: "PomodoroConfig \<Rightarrow> Pomodoro \<Rightarrow> Pomodoro \<Rightarrow> bool" where
  "after_work cfg e e' \<longleftrightarrow>
     completedPomodoros e' = completedPomodoros e + 1 \<and>
     (if pomodorosBeforeLongBreak cfg \<le> completedWorkSessionsInCycle e + 1
      then currentSession e' = LongBreak \<and> completedWorkSessionsInCycle e' = 0
      else currentSession e' = ShortBreak \<and>
           completedWorkSessionsInCycle e' = completedWorkSessionsInCycle e + 1)"

text \<open>In a reachable state the engine is subscribed to the clock exactly when it runs.\<close>

definition subscribed_iff_running :: "Pomodoro \<Rightarrow> bool" where
  "subscribed_iff_running e \<longleftrightarrow> tickSubscription e = isRunning e"

text \<open>
  An example: one-minute sessions, a long break after every second work session, and the
  engine in the last second of its first work session (started, 59 seconds gone).
\<close>

definition one_minute_config :: PomodoroConfig where
  "one_minute_config =
     \<lparr>workDuration = 1, shortBreakDuration = 1, longBreakDuration = 1,
      pomodorosBeforeLongBreak = 2\<rparr>"

definition last_work_second :: Pomodoro where
  "last_work_second = engine_run one_minute_config (Start # replicate 59 Second)"


text \<open>
  With a long break after every second work session, the session type and the cycle
  counter after \<open>k\<close> completed sessions.
\<close>

definition two_cycle_position :: "nat \<Rightarrow> Pomodoro \<Rightarrow> bool" where
  "two_cycle_position k e \<longleftrightarrow>
     (currentSession e, completedWorkSessionsInCycle e)
       = [(Work, 0), (ShortBreak, 1), (Work, 1), (LongBreak, 0)] ! (k mod 4)"

definition idle_with_time :: "Pomodoro \<Rightarrow> bool" where
  "idle_with_time e \<longleftrightarrow> \<not> isRunning e \<and> \<not> tickSubscription e \<and> 0 < timeRemaining e"

section \<open>Facts about the radio player\<close>

lemma length_LOFI_STATIONS: "length LOFI_STATIONS = 5"
  by (simp add: LOFI_STATIONS_def)

lemma play_inv: "radio_inv w \<Longrightarrow> radio_inv (snd (RadioPlayer_play sp w))"
  by (auto simp: radio_inv_def RadioPlayer_play_def Let_def
           split: option.splits SpawnOutcome.splits)

lemma stop_inv: "radio_inv w \<Longrightarrow> radio_inv (snd (RadioPlayer_stop k w))"
  by (auto simp: radio_inv_def RadioPlayer_stop_def split: option.splits KillOutcome.splits)

lemma index_update_inv: "radio_inv w \<Longrightarrow> radio_inv (w\<lparr>currentStationIndex := i\<rparr>)"
  by (simp add: radio_inv_def)

lemma switch_station_inv: "radio_inv w \<Longrightarrow> radio_inv (snd (switch_station i k sp w))"
proof -
  assume inv: "radio_inv w"
  obtain c w' where s: "RadioPlayer_stop k w = (c, w')"
    by (cases "RadioPlayer_stop k w")
  from stop_inv [OF inv, of k] s have inv': "radio_inv w'"
    by simp
  show ?thesis
  proof (cases c)
    case Threw
    with s inv' show ?thesis
      by (simp add: switch_station_def)
  next
    case (Returned u)
    with s inv' show ?thesis
      using play_inv [OF index_update_inv [OF inv', of i], of sp]
      by (simp add: switch_station_def Let_def index_update_inv)
  qed
qed

lemma toggle_inv: "radio_inv w \<Longrightarrow> radio_inv (snd (RadioPlayer_toggle k sp w))"
  using stop_inv [of w k] play_inv [of w sp]
  by (auto simp: RadioPlayer_toggle_def split: prod.splits completion.splits)

lemma radio_step_inv: "radio_inv w \<Longrightarrow> radio_inv (radio_step w op)"
  by (cases op)
     (simp_all add: play_inv stop_inv toggle_inv switch_station_inv RadioPlayer_pause_def
        RadioPlayer_resume_def RadioPlayer_nextStation_def RadioPlayer_previousStation_def
        RadioPlayer_setStation_def MusicManager_cleanup_def)

lemma radio_new_inv: "radio_inv (RadioPlayer_new cmd)"
  by (simp add: radio_inv_def RadioPlayer_new_def)

lemma radio_run_inv: "radio_inv w \<Longrightarrow> radio_inv (radio_run ops w)"
  unfolding radio_run_def
  by (induction ops arbitrary: w) (simp_all add: radio_step_inv)

lemma play_keeps_index:
  "currentStationIndex (snd (RadioPlayer_play sp w)) = currentStationIndex w"
  by (simp add: RadioPlayer_play_def Let_def split: option.splits SpawnOutcome.splits)

lemma stop_keeps_index:
  "currentStationIndex (snd (RadioPlayer_stop k w)) = currentStationIndex w"
  by (simp add: RadioPlayer_stop_def split: option.splits KillOutcome.splits)

lemma switch_station_index:
  "fst (switch_station i k sp w) = Returned () \<Longrightarrow>
   currentStationIndex (snd (switch_station i k sp w)) = i"
  by (auto simp: switch_station_def Let_def play_keeps_index split: prod.splits completion.splits)

lemma switch_station_returns:
  "k = KillOk \<or> process w = None \<Longrightarrow> fst (switch_station i k sp w) = Returned ()"
  by (auto simp: switch_station_def RadioPlayer_stop_def Let_def
           split: option.splits KillOutcome.splits)

lemma smod_nonneg: "0 \<le> a \<Longrightarrow> 0 < b \<Longrightarrow> (a::int) smod b = a mod b"
  by (cases "a = 0") (simp_all add: signed_modulo_int_def)

lemma next_index_mod:
  "0 \<le> i \<Longrightarrow> (i + 1) smod int (length LOFI_STATIONS) = (i + 1) mod int (length LOFI_STATIONS)"
  by (simp add: length_LOFI_STATIONS smod_nonneg)

lemma previous_index_mod:
  "0 \<le> i \<Longrightarrow>
   (i - 1 + int (length LOFI_STATIONS)) smod int (length LOFI_STATIONS)
     = (i - 1) mod int (length LOFI_STATIONS)"
proof -
  assume "0 \<le> i"
  then have "0 \<le> i - 1 + 5" by simp
  then have "(i - 1 + 5) smod 5 = (i - 1 + 5) mod 5"
    by (rule smod_nonneg) simp
  also have "\<dots> = (i - 1) mod 5"
    by presburger
  finally show ?thesis
    by (simp add: length_LOFI_STATIONS)
qed

lemma nextStation_index:
  assumes "index_in_catalog w" and "fst (RadioPlayer_nextStation k sp w) = Returned ()"
  shows "currentStationIndex (snd (RadioPlayer_nextStation k sp w))
           = (currentStationIndex w + 1) mod int (length LOFI_STATIONS)"
  using assms switch_station_index [of _ k sp w] next_index_mod [of "currentStationIndex w"]
  by (simp add: RadioPlayer_nextStation_def index_in_catalog_def)

lemma previousStation_index:
  assumes "index_in_catalog w" and "fst (RadioPlayer_previousStation k sp w) = Returned ()"
  shows "currentStationIndex (snd (RadioPlayer_previousStation k sp w))
           = (currentStationIndex w - 1) mod int (length LOFI_STATIONS)"
  using assms switch_station_index [of _ k sp w] previous_index_mod [of "currentStationIndex w"]
  by (simp add: RadioPlayer_previousStation_def index_in_catalog_def)

lemma nextStation_in_catalog:
  assumes "index_in_catalog w" and "fst (RadioPlayer_nextStation k sp w) = Returned ()"
  shows "index_in_catalog (snd (RadioPlayer_nextStation k sp w))"
  using nextStation_index [OF assms]
  by (simp add: index_in_catalog_def length_LOFI_STATIONS)

lemma nextStation_times_index:
  "index_in_catalog w \<Longrightarrow> fst (nextStation_times es w) = Returned () \<Longrightarrow>
   currentStationIndex (snd (nextStation_times es w))
     = (currentStationIndex w + int (length es)) mod int (length LOFI_STATIONS)"
proof (induction es arbitrary: w)
  case Nil
  then show ?case
    by (simp add: index_in_catalog_def)
next
  case (Cons e es)
  obtain k sp where e: "e = (k, sp)"
    by (cases e)
  obtain c w' where n: "RadioPlayer_nextStation k sp w = (c, w')"
    by (cases "RadioPlayer_nextStation k sp w")
  from Cons.prems(2) e n have c: "c = Returned ()"
    by (cases c) simp_all
  from Cons.prems(2) e n c have rest: "fst (nextStation_times es w') = Returned ()"
    by simp
  from nextStation_in_catalog [OF Cons.prems(1), of k sp] n c have cat: "index_in_catalog w'"
    by simp
  from nextStation_index [OF Cons.prems(1), of k sp] n c
  have idx: "currentStationIndex w' = (currentStationIndex w + 1) mod int (length LOFI_STATIONS)"
    by simp
  have "currentStationIndex (snd (nextStation_times (e # es) w))
          = currentStationIndex (snd (nextStation_times es w'))"
    using e n c by simp
  also have "\<dots> = (currentStationIndex w' + int (length es)) mod int (length LOFI_STATIONS)"
    by (rule Cons.IH [OF cat rest])
  also have "\<dots> = (currentStationIndex w + int (length (e # es))) mod int (length LOFI_STATIONS)"
    unfolding idx by (simp add: mod_simps ac_simps)
  finally show ?case .
qed

lemma silent_step: "silent w \<Longrightarrow> silent (radio_step w op)"
  by (cases op)
     (auto simp: silent_def RadioPlayer_play_def RadioPlayer_stop_def RadioPlayer_pause_def
        RadioPlayer_resume_def RadioPlayer_toggle_def switch_station_def Let_def
        RadioPlayer_nextStation_def RadioPlayer_previousStation_def RadioPlayer_setStation_def
        MusicManager_cleanup_def)

lemma silent_run: "silent w \<Longrightarrow> silent (radio_run ops w)"
  unfolding radio_run_def
  by (induction ops arbitrary: w) (simp_all add: silent_step)

section \<open>Claims about the radio player\<close>

text \<open>
  Claim C3. Whatever sequence of \<open>play\<close>, \<open>stop\<close>, \<open>pause\<close>, \<open>resume\<close>, \<open>toggle\<close>,
  \<open>nextStation\<close>, \<open>previousStation\<close>, \<open>setStation\<close> and \<open>cleanup\<close> calls a fresh
  player goes through, and whatever the spawns and kills of those calls do, at most one
  playback process is alive afterwards, no two were ever alive at once (no spawn happened
  while an earlier process lived), the live processes are exactly the handle in the
  \<open>process\<close> field, and that field is null exactly when nothing is playing.
\<close>

theorem radio_at_most_one_live_process:
  "length (live (radio_run ops (RadioPlayer_new cmd))) \<le> 1 \<and>
   peakLive (radio_run ops (RadioPlayer_new cmd)) \<le> 1 \<and>
   live (radio_run ops (RadioPlayer_new cmd))
     = (case process (radio_run ops (RadioPlayer_new cmd)) of None \<Rightarrow> [] | Some p \<Rightarrow> [p]) \<and>
   (process (radio_run ops (RadioPlayer_new cmd)) = None)
     = (\<not> isPlaying (radio_run ops (RadioPlayer_new cmd)))"
proof -
  have "radio_inv (radio_run ops (RadioPlayer_new cmd))"
    by (rule radio_run_inv [OF radio_new_inv])
  then show ?thesis
    by (auto simp: radio_inv_def split: option.splits)
qed

text \<open>
  Claim C4. In a state whose \<open>playerCommand\<close> is null, \<open>play()\<close> returns false and the state
  after the call is the state before it, whatever a spawn would have done. A player
  constructed without a program has, after any sequence of calls, still no program, is not
  playing, holds no handle and has spawned nothing.
\<close>

theorem play_without_player:
  "(playerCommand w = None \<longrightarrow> RadioPlayer_play sp w = (False, w)) \<and>
   playerCommand (radio_run ops (RadioPlayer_new None)) = None \<and>
   \<not> isPlaying (radio_run ops (RadioPlayer_new None)) \<and>
   process (radio_run ops (RadioPlayer_new None)) = None \<and>
   live (radio_run ops (RadioPlayer_new None)) = [] \<and>
   spawnCount (radio_run ops (RadioPlayer_new None)) = 0"
proof -
  have "silent (RadioPlayer_new None)"
    by (simp add: silent_def RadioPlayer_new_def)
  then have "silent (radio_run ops (RadioPlayer_new None))"
    by (rule silent_run)
  then show ?thesis
    by (simp add: silent_def RadioPlayer_play_def)
qed

theorem play_without_player_witness:
  "playerCommand (RadioPlayer_new None) = None \<and>
   RadioPlayer_play SpawnOk (RadioPlayer_new None) = (False, RadioPlayer_new None) \<and>
   \<not> isPlaying (radio_run [Play SpawnOk, NextStation KillOk SpawnOk] (RadioPlayer_new None))"
  using play_without_player [of "RadioPlayer_new None" SpawnOk "[Play SpawnOk, NextStation KillOk SpawnOk]"]
  by (simp add: RadioPlayer_new_def)

text \<open>
  Claim C5, as stated, fails: with a process playing, a \<open>kill()\<close> that throws is not caught
  by \<open>stop()\<close>; the call ends with the exception and yields no boolean.
\<close>

theorem stop_kill_error_counterexample:
  "fst (RadioPlayer_stop KillThrows (snd (RadioPlayer_play SpawnOk (RadioPlayer_new (Some ''mpv'')))))
     = Threw"
  by (simp add: RadioPlayer_stop_def RadioPlayer_play_def RadioPlayer_new_def station_at_def
        LOFI_STATIONS_def Let_def)

text \<open>
  Claim C5, amended. A spawn error in \<open>play()\<close> is caught inside \<open>play()\<close> and becomes the
  result false: in every state between two calls that is not playing, \<open>play()\<close> with a
  failing spawn returns false and leaves the state as it was, so the handle is still null,
  \<open>isPlaying\<close> is still false and no process is alive. \<open>stop()\<close> returns no boolean; when
  its kill goes through it returns normally, and then the handle is null, \<open>isPlaying\<close> is
  false and no process is alive.
\<close>

theorem process_failure_leaves_state_consistent:
  assumes "radio_inv w"
  shows "(\<not> isPlaying w \<longrightarrow>
            RadioPlayer_play SpawnThrows w = (False, w) \<and> process w = None \<and> live w = []) \<and>
         fst (RadioPlayer_stop KillOk w) = Returned () \<and>
         process (snd (RadioPlayer_stop KillOk w)) = None \<and>
         \<not> isPlaying (snd (RadioPlayer_stop KillOk w)) \<and>
         live (snd (RadioPlayer_stop KillOk w)) = [] \<and>
         radio_inv (snd (RadioPlayer_stop KillOk w))"
  using assms
  by (auto simp: radio_inv_def RadioPlayer_play_def RadioPlayer_stop_def
           split: option.splits)

theorem process_failure_leaves_state_consistent_witness:
  "radio_inv (RadioPlayer_new (Some ''mpv'')) \<and>
   \<not> isPlaying (RadioPlayer_new (Some ''mpv'')) \<and>
   RadioPlayer_play SpawnThrows (RadioPlayer_new (Some ''mpv''))
     = (False, RadioPlayer_new (Some ''mpv'')) \<and>
   fst (RadioPlayer_stop KillOk (RadioPlayer_new (Some ''mpv''))) = Returned ()"
proof -
  have inv: "radio_inv (RadioPlayer_new (Some ''mpv''))"
    by (simp add: radio_inv_def RadioPlayer_new_def)
  have idle: "\<not> isPlaying (RadioPlayer_new (Some ''mpv''))"
    by (simp add: RadioPlayer_new_def)
  from process_failure_leaves_state_consistent [OF inv] inv idle show ?thesis
    by blast
qed

text \<open>
  Claim C8. From every station index of the catalog, a \<open>nextStation()\<close> that returns
  leaves the index at the old index plus one modulo the catalog length, a
  \<open>previousStation()\<close> that returns leaves it at the old index minus one modulo the catalog
  length, and as many \<open>nextStation()\<close> calls as the catalog has stations, all returning,
  bring the index back to where it was; this holds whether or not music is playing and
  whatever the spawns do. Both calls return whenever nothing is playing or the kill of
  the playing process goes through.
\<close>

theorem station_index_modulo_catalog:
  assumes "index_in_catalog w"
  shows "(fst (RadioPlayer_nextStation k sp w) = Returned () \<longrightarrow>
            currentStationIndex (snd (RadioPlayer_nextStation k sp w))
              = (currentStationIndex w + 1) mod int (length LOFI_STATIONS)) \<and>
         (fst (RadioPlayer_previousStation k sp w) = Returned () \<longrightarrow>
            currentStationIndex (snd (RadioPlayer_previousStation k sp w))
              = (currentStationIndex w - 1) mod int (length LOFI_STATIONS)) \<and>
         (length es = length LOFI_STATIONS \<and> fst (nextStation_times es w) = Returned () \<longrightarrow>
            currentStationIndex (snd (nextStation_times es w)) = currentStationIndex w) \<and>
         (k = KillOk \<or> process w = None \<longrightarrow>
            fst (RadioPlayer_nextStation k sp w) = Returned () \<and>
            fst (RadioPlayer_previousStation k sp w) = Returned ())"
proof -
  have returns: "fst (RadioPlayer_nextStation k sp w) = Returned () \<and>
                 fst (RadioPlayer_previousStation k sp w) = Returned ()"
    if "k = KillOk \<or> process w = None"
    using that
    by (simp add: RadioPlayer_nextStation_def RadioPlayer_previousStation_def
          switch_station_returns)
  have "currentStationIndex (snd (nextStation_times es w)) = currentStationIndex w"
    if len: "length es = length LOFI_STATIONS" and ret: "fst (nextStation_times es w) = Returned ()"
  proof -
    have "currentStationIndex (snd (nextStation_times es w))
            = (currentStationIndex w + int (length es)) mod int (length LOFI_STATIONS)"
      by (rule nextStation_times_index [OF assms ret])
    also have "\<dots> = currentStationIndex w mod int (length LOFI_STATIONS)"
      by (simp add: len)
    also have "\<dots> = currentStationIndex w"
      using assms by (simp add: index_in_catalog_def)
    finally show ?thesis .
  qed
  with returns show ?thesis
    using nextStation_index [OF assms, of k sp] previousStation_index [OF assms, of k sp]
    by blast
qed

theorem station_index_modulo_catalog_witness:
  "index_in_catalog (snd (RadioPlayer_play SpawnOk (RadioPlayer_new (Some ''mpv'')))) \<and>
   currentStationIndex
     (snd (RadioPlayer_nextStation KillOk SpawnOk
        (snd (RadioPlayer_play SpawnOk (RadioPlayer_new (Some ''mpv'')))))) = 1 \<and>
   currentStationIndex
     (snd (RadioPlayer_previousStation KillOk SpawnOk
        (snd (RadioPlayer_play SpawnOk (RadioPlayer_new (Some ''mpv'')))))) = 4 \<and>
   currentStationIndex
     (snd (nextStation_times
        [(KillOk, SpawnOk), (KillOk, SpawnThrows), (KillOk, SpawnOk), (KillOk, SpawnOk), (KillOk, SpawnOk)]
        (snd (RadioPlayer_play SpawnOk (RadioPlayer_new (Some ''mpv'')))))) = 0"
proof -
  let ?w = "snd (RadioPlayer_play SpawnOk (RadioPlayer_new (Some ''mpv'')))"
  let ?es = "[(KillOk, SpawnOk), (KillOk, SpawnThrows), (KillOk, SpawnOk), (KillOk, SpawnOk), (KillOk, SpawnOk)]"
  have w: "?w = \<lparr>process = Some \<lparr>pid = 0, argv = [''mpv'', ''--no-video'', ''--really-quiet'', ''https://play.streamafrica.net/lofiradio'']\<rparr>,
                 currentStationIndex = 0, isPlaying = True, playerCommand = Some ''mpv'',
                 live = [\<lparr>pid = 0, argv = [''mpv'', ''--no-video'', ''--really-quiet'', ''https://play.streamafrica.net/lofiradio'']\<rparr>],
                 spawnCount = 1, peakLive = 1\<rparr>"
    by (simp add: RadioPlayer_play_def RadioPlayer_new_def station_at_def LOFI_STATIONS_def
          getPlayerArgs_def Let_def)
  have cat: "index_in_catalog ?w"
    unfolding w by (simp add: index_in_catalog_def length_LOFI_STATIONS)
  have idx: "currentStationIndex ?w = 0"
    unfolding w by simp
  have n: "fst (RadioPlayer_nextStation KillOk SpawnOk ?w) = Returned ()"
    unfolding w
    by (simp add: RadioPlayer_nextStation_def switch_station_def RadioPlayer_stop_def Let_def)
  have p: "fst (RadioPlayer_previousStation KillOk SpawnOk ?w) = Returned ()"
    unfolding w
    by (simp add: RadioPlayer_previousStation_def switch_station_def RadioPlayer_stop_def Let_def)
  have t: "fst (nextStation_times ?es ?w) = Returned ()"
    unfolding w
    by (simp add: RadioPlayer_nextStation_def switch_station_def RadioPlayer_stop_def
          RadioPlayer_play_def station_at_def LOFI_STATIONS_def signed_modulo_int_def Let_def)
  have len: "length ?es = length LOFI_STATIONS"
    by (simp add: LOFI_STATIONS_def)
  from station_index_modulo_catalog [OF cat, of KillOk SpawnOk ?es] n p t len idx cat
  show ?thesis
    by (simp add: LOFI_STATIONS_def)
qed

section \<open>Facts and claims about the Spotify poll\<close>






text \<open>
  A poll that succeeds does replace the cached track, also when the answer's item lacks
  names: nothing throws, and the new track carries the missing fields as undefined.
\<close>

lemma answer_without_names_replaces_cache:
  "\<not> poll_fails answer_without_names \<and>
   SpotifyDisplay_getCachedTrack (fst (SpotifyDisplay_poll answer_without_names cached_display))
     = Some \<lparr>track_name = Some ''Affection'', track_artist = ''Jinsang, '',
             track_album = None, track_isPlaying = Some False\<rparr>"
  by (simp add: answer_without_names_def cached_display_def SpotifyDisplay_poll_def
        SpotifyDisplay_getCurrentTrack_def SpotifyDisplay_getCachedTrack_def read_track_def
        response_ok_def)

section \<open>Facts and claims about the history manager\<close>

lemma getPomodoroNumber_same_day:
  "getDateString (today env) = getDateString (now env) \<Longrightarrow>
   pomodoroNumber (new_entry env Work d h)
     = work_ordinal_of_last (snd (HistoryManager_addEntry env Work d h))"
  by (cases "saved env")
     (simp_all add: HistoryManager_addEntry_def new_entry_def work_ordinal_of_last_def
        getPomodoroNumberForToday_def Let_def conj_commute)

lemma break_entry_number:
  "st \<noteq> Work \<Longrightarrow> pomodoroNumber (new_entry env st d h) = 0"
  by (simp add: new_entry_def)

lemma addEntry_last:
  "last (entries (snd (HistoryManager_addEntry env st d h))) = new_entry env st d h"
  by (cases "saved env") (simp_all add: HistoryManager_addEntry_def Let_def)

text \<open>
  Claim C9 is right and the code misses it at midnight. \<open>addEntry\<close> takes the entry's
  \<open>date\<close> from its own \<open>new Date()\<close>, but \<open>getPomodoroNumberForToday\<close> reads the clock
  again. With one work entry of 2024-01-01 in the history, an entry made at
  23:59:59.999 whose second clock reading is 00:00:00.000 of the next day is dated
  2024-01-01 and is the second work entry of that date, yet records the number 1.
\<close>

theorem addEntry_number_across_midnight:
  "pomodoroNumber
     (last (entries (snd (HistoryManager_addEntry
        \<lparr>now = ''2024-01-01T23:59:59.999Z'', generatedId = ''b'',
         today = ''2024-01-02T00:00:00.000Z'', saved = SaveOk\<rparr>
        Work 25
        \<lparr>entries = [\<lparr>entry_id = ''a'', sessionType = Work, duration = 25,
                      completedAt = ''2024-01-01T09:00:00.000Z'', date = ''2024-01-01'',
                      pomodoroNumber = 1\<rparr>],
         totalPomodoros = 1, lastUpdated = ''2024-01-01T09:00:00.000Z''\<rparr>)))) = 1 \<and>
   date
     (last (entries (snd (HistoryManager_addEntry
        \<lparr>now = ''2024-01-01T23:59:59.999Z'', generatedId = ''b'',
         today = ''2024-01-02T00:00:00.000Z'', saved = SaveOk\<rparr>
        Work 25
        \<lparr>entries = [\<lparr>entry_id = ''a'', sessionType = Work, duration = 25,
                      completedAt = ''2024-01-01T09:00:00.000Z'', date = ''2024-01-01'',
                      pomodoroNumber = 1\<rparr>],
         totalPomodoros = 1, lastUpdated = ''2024-01-01T09:00:00.000Z''\<rparr>)))) = ''2024-01-01'' \<and>
   work_ordinal_of_last
     (snd (HistoryManager_addEntry
        \<lparr>now = ''2024-01-01T23:59:59.999Z'', generatedId = ''b'',
         today = ''2024-01-02T00:00:00.000Z'', saved = SaveOk\<rparr>
        Work 25
        \<lparr>entries = [\<lparr>entry_id = ''a'', sessionType = Work, duration = 25,
                      completedAt = ''2024-01-01T09:00:00.000Z'', date = ''2024-01-01'',
                      pomodoroNumber = 1\<rparr>],
         totalPomodoros = 1, lastUpdated = ''2024-01-01T09:00:00.000Z''\<rparr>)) = 2"
  by (simp add: HistoryManager_addEntry_def new_entry_def getPomodoroNumberForToday_def
        getDateString_def work_ordinal_of_last_def Let_def)

text \<open>
  Claim C10. For every history, every session type and duration, and whether or not the
  write to disk succeeds, \<open>addEntry\<close> appends exactly one entry (the new one, at the end),
  sets \<open>lastUpdated\<close> to the entry's \<open>completedAt\<close> time, and changes \<open>totalPomodoros\<close> by
  one if the session type is work and by nothing otherwise.
\<close>

theorem addEntry_counts_work_only:
  "entries (snd (HistoryManager_addEntry env st d h)) = entries h @ [new_entry env st d h] \<and>
   length (entries (snd (HistoryManager_addEntry env st d h))) = length (entries h) + 1 \<and>
   lastUpdated (snd (HistoryManager_addEntry env st d h)) = now env \<and>
   completedAt (new_entry env st d h) = now env \<and>
   totalPomodoros (snd (HistoryManager_addEntry env st d h))
     = totalPomodoros h + (if st = Work then 1 else 0) \<and>
   (totalPomodoros (snd (HistoryManager_addEntry env st d h)) = totalPomodoros h + 1) = (st = Work)"
  by (cases "saved env") (simp_all add: HistoryManager_addEntry_def new_entry_def Let_def)

section \<open>Facts about the session engine\<close>

lemma transition_stops:
  "\<not> isRunning (fst (transition cfg e)) \<and> \<not> tickSubscription (fst (transition cfg e))"
  by (simp add: transition_def Let_def split: prod.splits)

lemma tick_subscribed:
  "subscribed_iff_running e \<Longrightarrow> subscribed_iff_running (fst (Pomodoro_tick cfg e))"
  by (simp add: Pomodoro_tick_def Let_def subscribed_iff_running_def transition_stops)

lemma engine_step_subscribed:
  "subscribed_iff_running e \<Longrightarrow> subscribed_iff_running (engine_step cfg e ev)"
proof (cases ev)
  case Second
  assume "subscribed_iff_running e"
  then show ?thesis
    using tick_subscribed [of e cfg] Second by (simp add: clock_second_def)
next
  case Skip
  then show ?thesis
    using transition_stops [of cfg e] by (simp add: Pomodoro_skip_def subscribed_iff_running_def)
qed (simp_all add: subscribed_iff_running_def Pomodoro_start_def Pomodoro_pause_def
       Pomodoro_reset_def)

lemma engine_run_subscribed: "subscribed_iff_running (engine_run cfg evs)"
proof -
  have "subscribed_iff_running e \<Longrightarrow> subscribed_iff_running (foldl (engine_step cfg) e evs)" for e
    by (induction evs arbitrary: e) (simp_all add: engine_step_subscribed)
  moreover have "subscribed_iff_running (Pomodoro_new cfg)"
    by (simp add: subscribed_iff_running_def Pomodoro_new_def)
  ultimately show ?thesis
    by (simp add: engine_run_def)
qed

lemma elapse_unsubscribed: "\<not> tickSubscription e \<Longrightarrow> elapse cfg n e = (e, [])"
  by (induction n) (simp_all add: clock_second_def)

lemma elapse_to_zero:
  "tickSubscription e \<Longrightarrow> timeRemaining e = Suc n \<Longrightarrow>
   fst (elapse cfg (Suc n) e) = fst (transition cfg (e\<lparr>timeRemaining := 0\<rparr>))"
proof (induction n arbitrary: e)
  case 0
  then show ?case
    by (simp add: clock_second_def Pomodoro_tick_def Let_def split: prod.splits)
next
  case (Suc n)
  let ?e1 = "e\<lparr>timeRemaining := Suc n\<rparr>"
  have step: "clock_second cfg e = (?e1, [emit (StateChanged (getState ?e1)) ?e1])"
    using Suc.prems by (simp add: clock_second_def Pomodoro_tick_def Let_def)
  have "fst (elapse cfg (Suc (Suc n)) e) = fst (elapse cfg (Suc n) ?e1)"
    using step by (simp split: prod.splits)
  also have "\<dots> = fst (transition cfg (?e1\<lparr>timeRemaining := 0\<rparr>))"
    using Suc.prems by (intro Suc.IH) simp_all
  finally show ?case
    by simp
qed

lemma transition_fields:
  "currentSession (fst (transition cfg e)) = snd (count_session cfg e) \<and>
   timeRemaining (fst (transition cfg e)) = sessionSeconds cfg (snd (count_session cfg e)) \<and>
   completedPomodoros (fst (transition cfg e)) = completedPomodoros (fst (count_session cfg e)) \<and>
   completedWorkSessionsInCycle (fst (transition cfg e))
     = completedWorkSessionsInCycle (fst (count_session cfg e))"
  by (simp add: transition_def Let_def split: prod.splits)

lemma count_session_ignores_time:
  "snd (count_session cfg (e\<lparr>timeRemaining := t\<rparr>)) = snd (count_session cfg e) \<and>
   completedPomodoros (fst (count_session cfg (e\<lparr>timeRemaining := t\<rparr>)))
     = completedPomodoros (fst (count_session cfg e)) \<and>
   completedWorkSessionsInCycle (fst (count_session cfg (e\<lparr>timeRemaining := t\<rparr>)))
     = completedWorkSessionsInCycle (fst (count_session cfg e))"
  by (simp add: count_session_def Let_def split: SessionType.splits)

lemma count_session_work:
  "currentSession e = Work \<Longrightarrow>
   completedPomodoros (fst (count_session cfg e)) = completedPomodoros e + 1 \<and>
   (if pomodorosBeforeLongBreak cfg \<le> completedWorkSessionsInCycle e + 1
    then snd (count_session cfg e) = LongBreak \<and>
         completedWorkSessionsInCycle (fst (count_session cfg e)) = 0
    else snd (count_session cfg e) = ShortBreak \<and>
         completedWorkSessionsInCycle (fst (count_session cfg e))
           = completedWorkSessionsInCycle e + 1)"
  by (simp add: count_session_def Let_def)

lemma count_session_break:
  "currentSession e \<noteq> Work \<Longrightarrow>
   snd (count_session cfg e) = Work \<and>
   completedPomodoros (fst (count_session cfg e)) = completedPomodoros e \<and>
   completedWorkSessionsInCycle (fst (count_session cfg e)) = completedWorkSessionsInCycle e"
  by (cases "currentSession e") (simp_all add: count_session_def)


lemma tick_to_zero:
  "timeRemaining e = 1 \<Longrightarrow> Pomodoro_tick cfg e = transition cfg (e\<lparr>timeRemaining := 0\<rparr>)"
  by (simp add: Pomodoro_tick_def Let_def)

lemma transition_after_work:
  "currentSession e = Work \<Longrightarrow> after_work cfg e (fst (transition cfg (e\<lparr>timeRemaining := t\<rparr>)))"
  using count_session_work [of e cfg]
  by (simp add: after_work_def transition_fields count_session_ignores_time)

lemma transition_after_break:
  "currentSession e \<noteq> Work \<Longrightarrow>
   currentSession (fst (transition cfg (e\<lparr>timeRemaining := t\<rparr>))) = Work \<and>
   completedPomodoros (fst (transition cfg (e\<lparr>timeRemaining := t\<rparr>))) = completedPomodoros e \<and>
   completedWorkSessionsInCycle (fst (transition cfg (e\<lparr>timeRemaining := t\<rparr>)))
     = completedWorkSessionsInCycle e"
  using count_session_break [of e cfg]
  by (simp add: transition_fields count_session_ignores_time)

lemma sessionSeconds_positive: "valid_config cfg \<Longrightarrow> 0 < sessionSeconds cfg s"
  by (cases s) (simp_all add: valid_config_def)

lemma transition_idle:
  "valid_config cfg \<Longrightarrow> idle_with_time (fst (transition cfg e))"
  by (simp add: idle_with_time_def transition_stops transition_fields sessionSeconds_positive)

text \<open>Either way of ending a session performs the transition on the same counters.\<close>

lemma complete_session_is_transition:
  assumes "idle_with_time e"
  shows "complete_session cfg e how = fst (transition cfg (e\<lparr>timeRemaining := 0\<rparr>)) \<or>
         complete_session cfg e how = fst (transition cfg (e\<lparr>timeRemaining := timeRemaining e\<rparr>))"
proof (cases how)
  case BySkip
  then show ?thesis
    by (simp add: Pomodoro_skip_def)
next
  case ByTicks
  from assms obtain n where n: "timeRemaining e = Suc n"
    by (cases "timeRemaining e") (simp_all add: idle_with_time_def)
  let ?s = "Pomodoro_start e"
  have s: "?s = e\<lparr>isRunning := True, tickSubscription := True\<rparr>"
    using assms by (simp add: Pomodoro_start_def idle_with_time_def)
  have "fst (elapse cfg (Suc n) ?s) = fst (transition cfg (?s\<lparr>timeRemaining := 0\<rparr>))"
    by (rule elapse_to_zero) (simp_all add: s n)
  also have "\<dots> = fst (transition cfg (e\<lparr>timeRemaining := 0\<rparr>))"
    by (simp add: s transition_def count_session_def Let_def getState_def emit_def
          split: SessionType.splits prod.splits)
  finally show ?thesis
    using ByTicks n by simp
qed

lemma complete_session_two_cycle:
  assumes cfg: "valid_config cfg" "pomodorosBeforeLongBreak cfg = 2"
    and idle: "idle_with_time e" and pos: "two_cycle_position k e"
  shows "idle_with_time (complete_session cfg e how) \<and>
         two_cycle_position (Suc k) (complete_session cfg e how)"
proof -
  from complete_session_is_transition [OF idle, of cfg how]
  obtain t where t: "complete_session cfg e how = fst (transition cfg (e\<lparr>timeRemaining := t\<rparr>))"
    by blast
  have four: "k mod 4 = 0 \<or> k mod 4 = 1 \<or> k mod 4 = 2 \<or> k mod 4 = 3"
    by arith
  have "two_cycle_position (Suc k) (fst (transition cfg (e\<lparr>timeRemaining := t\<rparr>)))"
    using four
  proof (elim disjE)
    assume k: "k mod 4 = 0"
    with pos have e: "currentSession e = Work" "completedWorkSessionsInCycle e = 0"
      by (simp_all add: two_cycle_position_def)
    from transition_after_work [OF e(1), of cfg t] e(2) cfg(2) k show ?thesis
      by (simp add: after_work_def two_cycle_position_def mod_Suc)
  next
    assume k: "k mod 4 = 1"
    with pos have e: "currentSession e = ShortBreak" "completedWorkSessionsInCycle e = 1"
      by (simp_all add: two_cycle_position_def)
    from e(1) have "currentSession e \<noteq> Work"
      by simp
    from transition_after_break [OF this, of cfg t] e(2) k show ?thesis
      by (simp add: two_cycle_position_def mod_Suc)
  next
    assume k: "k mod 4 = 2"
    with pos have e: "currentSession e = Work" "completedWorkSessionsInCycle e = 1"
      by (simp_all add: two_cycle_position_def)
    from transition_after_work [OF e(1), of cfg t] e(2) cfg(2) k show ?thesis
      by (simp add: after_work_def two_cycle_position_def mod_Suc)
  next
    assume k: "k mod 4 = 3"
    with pos have e: "currentSession e = LongBreak" "completedWorkSessionsInCycle e = 0"
      by (simp_all add: two_cycle_position_def)
    from e(1) have "currentSession e \<noteq> Work"
      by simp
    from transition_after_break [OF this, of cfg t] e(2) k show ?thesis
      by (simp add: two_cycle_position_def mod_Suc)
  qed
  with t transition_idle [OF cfg(1)] show ?thesis
    by simp
qed

lemma complete_sessions_two_cycle:
  assumes "valid_config cfg" and "pomodorosBeforeLongBreak cfg = 2"
  shows "idle_with_time (complete_sessions cfg ends) \<and>
         two_cycle_position (length ends) (complete_sessions cfg ends)"
proof (induction ends rule: rev_induct)
  case Nil
  from assms(1) show ?case
    by (simp add: complete_sessions_def Pomodoro_new_def idle_with_time_def
          two_cycle_position_def valid_config_def)
next
  case (snoc how ends)
  then show ?case
    using complete_session_two_cycle [OF assms, of "complete_sessions cfg ends" "length ends" how]
    by (simp add: complete_sessions_def)
qed




section \<open>Claims about the session engine\<close>

text \<open>
  Claim C1. In every reachable state of the engine (the state after any sequence of
  commands and clock seconds from the initial state), \<open>pause()\<close> clears \<open>isRunning\<close> and
  leaves \<open>timeRemaining\<close>, \<open>currentSession\<close>, \<open>completedPomodoros\<close> and the cycle counter
  as they were; any number of seconds of real time after the pause change nothing and
  notify nobody; a \<open>start()\<close> after them shows the snapshot of the moment of the pause,
  running again; and the next second counts down from exactly that \<open>timeRemaining\<close>.
\<close>

theorem pause_then_start_resumes_exactly:
  fixes cfg :: PomodoroConfig and evs :: "EngineEvent list" and n :: nat
  defines "e \<equiv> engine_run cfg evs"
  shows "getState (Pomodoro_pause e) = (getState e)\<lparr>isRunning := False\<rparr> \<and>
         completedWorkSessionsInCycle (Pomodoro_pause e) = completedWorkSessionsInCycle e \<and>
         elapse cfg n (Pomodoro_pause e) = (Pomodoro_pause e, []) \<and>
         getState (Pomodoro_start (fst (elapse cfg n (Pomodoro_pause e))))
           = (getState e)\<lparr>isRunning := True\<rparr> \<and>
         (1 < timeRemaining e \<longrightarrow>
            timeRemaining
              (fst (clock_second cfg (Pomodoro_start (fst (elapse cfg n (Pomodoro_pause e))))))
              = timeRemaining e - 1)"
proof -
  have sub: "tickSubscription e = isRunning e"
    using engine_run_subscribed [of cfg evs] by (simp add: e_def subscribed_iff_running_def)
  have off: "\<not> tickSubscription (Pomodoro_pause e)"
    using sub by (simp add: Pomodoro_pause_def)
  have quiet: "elapse cfg n (Pomodoro_pause e) = (Pomodoro_pause e, [])"
    by (rule elapse_unsubscribed [OF off])
  have paused: "getState (Pomodoro_pause e) = (getState e)\<lparr>isRunning := False\<rparr>"
    by (simp add: Pomodoro_pause_def getState_def)
  have counter: "completedWorkSessionsInCycle (Pomodoro_pause e) = completedWorkSessionsInCycle e"
    by (simp add: Pomodoro_pause_def)
  have resumed: "Pomodoro_start (Pomodoro_pause e) = e\<lparr>isRunning := True, tickSubscription := True\<rparr>"
    by (simp add: Pomodoro_start_def Pomodoro_pause_def)
  have snapshot: "getState (Pomodoro_start (Pomodoro_pause e)) = (getState e)\<lparr>isRunning := True\<rparr>"
    by (simp add: resumed getState_def)
  have "timeRemaining (fst (clock_second cfg (Pomodoro_start (Pomodoro_pause e))))
          = timeRemaining e - 1" if "1 < timeRemaining e"
    using that by (simp add: resumed clock_second_def Pomodoro_tick_def Let_def)
  with quiet paused counter snapshot show ?thesis
    by simp
qed

theorem pause_then_start_resumes_exactly_witness:
  "1 < timeRemaining (engine_run DEFAULT_CONFIG [Start, Second, Second]) \<and>
   timeRemaining (engine_run DEFAULT_CONFIG [Start, Second, Second]) = 1498 \<and>
   timeRemaining
     (fst (clock_second DEFAULT_CONFIG
        (Pomodoro_start
           (fst (elapse DEFAULT_CONFIG 7
              (Pomodoro_pause (engine_run DEFAULT_CONFIG [Start, Second, Second]))))))) = 1497"
proof -
  have t: "timeRemaining (engine_run DEFAULT_CONFIG [Start, Second, Second]) = 1498"
    by (simp add: engine_run_def DEFAULT_CONFIG_def Pomodoro_new_def Pomodoro_start_def
          clock_second_def Pomodoro_tick_def Let_def)
  from pause_then_start_resumes_exactly [of DEFAULT_CONFIG "[Start, Second, Second]" 7]
  have "1 < timeRemaining (engine_run DEFAULT_CONFIG [Start, Second, Second]) \<longrightarrow>
        timeRemaining
          (fst (clock_second DEFAULT_CONFIG
             (Pomodoro_start
                (fst (elapse DEFAULT_CONFIG 7
                   (Pomodoro_pause (engine_run DEFAULT_CONFIG [Start, Second, Second])))))))
          = timeRemaining (engine_run DEFAULT_CONFIG [Start, Second, Second]) - 1"
    by blast
  with t show ?thesis
    by simp
qed

text \<open>
  Claim C2. For every valid configuration: when a work session ends, by \<open>skip()\<close> or by
  the tick that takes \<open>timeRemaining\<close> from one to zero, \<open>completedPomodoros\<close> goes up by
  one, and the cycle counter goes up by one and, if it has then reached
  \<open>pomodorosBeforeLongBreak\<close>, the next session is the long break and the counter is back
  at zero, otherwise the next session is the short break; when a break ends, the next
  session is work and neither counter moves. With \<open>pomodorosBeforeLongBreak = 2\<close> the
  session after any number \<open>k\<close> of completed sessions, each ended by running out or by a
  skip, is the entry \<open>k mod 4\<close> of Work, ShortBreak, Work, LongBreak.
\<close>

theorem session_cycle:
  assumes "valid_config cfg"
  shows "(currentSession e = Work \<longrightarrow>
            after_work cfg e (fst (Pomodoro_skip cfg e)) \<and>
            (timeRemaining e = 1 \<longrightarrow> after_work cfg e (fst (Pomodoro_tick cfg e)))) \<and>
         (currentSession e \<noteq> Work \<longrightarrow>
            currentSession (fst (Pomodoro_skip cfg e)) = Work \<and>
            completedPomodoros (fst (Pomodoro_skip cfg e)) = completedPomodoros e \<and>
            completedWorkSessionsInCycle (fst (Pomodoro_skip cfg e)) = completedWorkSessionsInCycle e \<and>
            (timeRemaining e = 1 \<longrightarrow>
               currentSession (fst (Pomodoro_tick cfg e)) = Work \<and>
               completedPomodoros (fst (Pomodoro_tick cfg e)) = completedPomodoros e \<and>
               completedWorkSessionsInCycle (fst (Pomodoro_tick cfg e))
                 = completedWorkSessionsInCycle e)) \<and>
         (pomodorosBeforeLongBreak cfg = 2 \<longrightarrow>
            currentSession (complete_sessions cfg ends)
              = [Work, ShortBreak, Work, LongBreak] ! (length ends mod 4))"
proof -
  have skip: "Pomodoro_skip cfg e = transition cfg (e\<lparr>timeRemaining := timeRemaining e\<rparr>)"
    by (simp add: Pomodoro_skip_def)
  have work_skip: "after_work cfg e (fst (Pomodoro_skip cfg e))" if "currentSession e = Work"
    unfolding skip by (rule transition_after_work [OF that])
  have work_tick: "after_work cfg e (fst (Pomodoro_tick cfg e))"
    if "currentSession e = Work" "timeRemaining e = 1"
    unfolding tick_to_zero [OF that(2)] by (rule transition_after_work [OF that(1)])
  have break_skip:
    "currentSession (fst (Pomodoro_skip cfg e)) = Work \<and>
     completedPomodoros (fst (Pomodoro_skip cfg e)) = completedPomodoros e \<and>
     completedWorkSessionsInCycle (fst (Pomodoro_skip cfg e)) = completedWorkSessionsInCycle e"
    if "currentSession e \<noteq> Work"
    unfolding skip by (rule transition_after_break [OF that])
  have break_tick:
    "currentSession (fst (Pomodoro_tick cfg e)) = Work \<and>
     completedPomodoros (fst (Pomodoro_tick cfg e)) = completedPomodoros e \<and>
     completedWorkSessionsInCycle (fst (Pomodoro_tick cfg e)) = completedWorkSessionsInCycle e"
    if "currentSession e \<noteq> Work" "timeRemaining e = 1"
    unfolding tick_to_zero [OF that(2)] by (rule transition_after_break [OF that(1)])
  have trace: "currentSession (complete_sessions cfg ends)
                 = [Work, ShortBreak, Work, LongBreak] ! (length ends mod 4)"
    if two: "pomodorosBeforeLongBreak cfg = 2"
  proof -
    have four: "length ends mod 4 = 0 \<or> length ends mod 4 = 1 \<or> length ends mod 4 = 2 \<or>
                length ends mod 4 = 3"
      by arith
    from complete_sessions_two_cycle [OF assms two, of ends]
    have "two_cycle_position (length ends) (complete_sessions cfg ends)"
      by simp
    with four show ?thesis
      by (auto simp: two_cycle_position_def)
  qed
  from work_skip work_tick break_skip break_tick trace show ?thesis
    by blast
qed

theorem session_cycle_witness:
  "valid_config one_minute_config \<and>
   pomodorosBeforeLongBreak one_minute_config = 2 \<and>
   currentSession (Pomodoro_new one_minute_config) = Work \<and>
   after_work one_minute_config (Pomodoro_new one_minute_config)
     (fst (Pomodoro_skip one_minute_config (Pomodoro_new one_minute_config))) \<and>
   currentSession last_work_second = Work \<and> timeRemaining last_work_second = 1 \<and>
   after_work one_minute_config last_work_second
     (fst (Pomodoro_tick one_minute_config last_work_second)) \<and>
   currentSession (fst (Pomodoro_tick one_minute_config last_work_second)) \<noteq> Work \<and>
   currentSession
     (fst (Pomodoro_skip one_minute_config
        (fst (Pomodoro_tick one_minute_config last_work_second)))) = Work \<and>
   map (\<lambda>ends. currentSession (complete_sessions one_minute_config ends))
     [[], [ByTicks], [ByTicks, BySkip], [ByTicks, BySkip, ByTicks],
      [ByTicks, BySkip, ByTicks, ByTicks], [ByTicks, BySkip, ByTicks, ByTicks, BySkip]]
     = [Work, ShortBreak, Work, LongBreak, Work, ShortBreak]"
proof -
  have v: "valid_config one_minute_config"
    by (simp add: valid_config_def one_minute_config_def)
  have two: "pomodorosBeforeLongBreak one_minute_config = 2"
    by (simp add: one_minute_config_def)
  have w0: "currentSession (Pomodoro_new one_minute_config) = Work"
    by (simp add: Pomodoro_new_def)
  have w1: "currentSession last_work_second = Work"
    by code_simp
  have t1: "timeRemaining last_work_second = 1"
    by code_simp
  have b: "currentSession (fst (Pomodoro_tick one_minute_config last_work_second)) \<noteq> Work"
    by code_simp
  note a = session_cycle [OF v, of "Pomodoro_new one_minute_config"]
  note c = session_cycle [OF v, of last_work_second]
  note d = session_cycle [OF v, of "fst (Pomodoro_tick one_minute_config last_work_second)"]
  note s = session_cycle [OF v, of "Pomodoro_new one_minute_config"]
  have tr: "currentSession (complete_sessions one_minute_config ends)
              = [Work, ShortBreak, Work, LongBreak] ! (length ends mod 4)" for ends
    using session_cycle [OF v, of "Pomodoro_new one_minute_config" ends] two by blast
  have m: "map (\<lambda>ends. currentSession (complete_sessions one_minute_config ends))
     [[], [ByTicks], [ByTicks, BySkip], [ByTicks, BySkip, ByTicks],
      [ByTicks, BySkip, ByTicks, ByTicks], [ByTicks, BySkip, ByTicks, ByTicks, BySkip]]
     = [Work, ShortBreak, Work, LongBreak, Work, ShortBreak]"
    by (simp add: tr)
  from a c d v two w0 w1 t1 b m show ?thesis
    by blast
qed




end
